theory Spec2Isabelle
  imports Complex_Main
begin

section \<open>Documents of the store\<close>

text \<open>
  Identifiers are the string form of an ObjectId; a \<^verbatim>\<open>Date\<close> is its \<^verbatim>\<open>getTime()\<close> value,
  milliseconds since the epoch. JavaScript numbers that hold counters and points are
  modelled as unbounded integers, amounts of money, rates and ratings as reals. A string is
  a list of 8-bit characters. The records carry the fields the modelled operations read or
  write and the fields that a validator of \<^verbatim>\<open>UserSchema\<close>, \<^verbatim>\<open>ApplicationSchema\<close> or
  \<^verbatim>\<open>ActivityEventSchema\<close> constrains; a field restricted to an enum has a datatype. A
  required string that is missing is the empty string. Identifiers of new documents and
  clock readings are parameters of the operations. Every operation returns its outcome
  together with the database after it; an operation that throws returns the database with
  the writes it made before.
\<close>

type_synonym objectId = string
type_synonym date = int

text \<open>
  \<^verbatim>\<open>AppError(statusCode, code, message)\<close> and its subclasses of
  \<^verbatim>\<open>core/middlewares/errorHandler\<close>; the message text is dropped. The other three
  constructors are what the libraries throw: a Mongoose validation failure, the duplicate-key
  error of a unique index, and the \<^verbatim>\<open>TypeError\<close> of a property read on \<^verbatim>\<open>null\<close>.
\<close>

datatype error =
    AppError nat string
  | MongooseValidationError
  | DuplicateKeyError
  | TypeError

definition NotFoundError :: error where
  "NotFoundError = AppError 404 ''NOT_FOUND''"


definition ForbiddenError :: error where
  "ForbiddenError = AppError 403 ''FORBIDDEN''"

datatype accountStatus = AccPending | AccActive | AccSuspended | AccDeleted

datatype userRole = Client | Freelancer | Admin

record gamification =
  currentStreak :: int
  longestStreak :: int
  lastActivityDate :: "date option"
  totalPoints :: int
  level :: int
  achievements :: "objectId list"

record userStats =
  jobsPosted :: int
  jobsCompleted :: int
  gigsCreated :: int
  totalEarnings :: real
  totalSpent :: real
  rating :: real
  reviewsCount :: int

record profile =
  firstName :: string
  lastName :: string
  avatar :: "string option"
  bio :: "string option"
  location :: "string option"
  phone :: "string option"

datatype availability = Available | Busy | Unavailable

record freelancerProfile =
  hourlyRate :: "real option"
  availability :: availability

record user =
  user_id :: objectId
  email :: string
  password :: string
  role :: userRole
  accountStatus :: accountStatus
  profile :: profile
  freelancerProfile :: freelancerProfile
  gamification :: gamification
  stats :: userStats
  refreshTokens :: "string list"
  lastLoginAt :: "date option"

record achievement =
  ach_id :: objectId
  ach_name :: string
  criteria_type :: string
  criteria_target :: int
  ach_points :: int
  isActive :: bool

record activityEvent =
  ev_userId :: objectId
  ev_type :: string
  ev_points :: int
  ev_metadata :: "string option"
  ev_date :: date

datatype jobStatus = Draft | Open | In_progress | Completed | Cancelled

record jobStats =
  views :: int
  applicationsCount :: int
  savedCount :: int

record job =
  job_id :: objectId
  title :: string
  clientId :: objectId
  job_status :: jobStatus
  assignedFreelancerId :: "objectId option"
  job_stats :: jobStats

datatype applicationStatus = Pending | Accepted | Rejected | Withdrawn

record application =
  app_id :: objectId
  jobId :: objectId
  freelancerId :: objectId
  coverLetter :: string
  proposedRate :: "real option"
  app_status :: applicationStatus
  appliedAt :: date
  respondedAt :: "date option"

text \<open>The database: one list of documents per collection, in insertion order.\<close>

record db =
  users :: "user list"
  jobs :: "job list"
  applications :: "application list"
  activityEvents :: "activityEvent list"
  achievementCatalog :: "achievement list"

section \<open>Store operations\<close>

text \<open>\<^verbatim>\<open>Model.findById(id)\<close>: the document with that identifier, if any.\<close>

definition findById :: "('a \<Rightarrow> objectId) \<Rightarrow> objectId \<Rightarrow> 'a list \<Rightarrow> 'a option" where
  "findById ident i docs = find (\<lambda>d. ident d = i) docs"

text \<open>\<^verbatim>\<open>doc.save()\<close>: the stored document with the identifier of \<open>doc\<close> is replaced by \<open>doc\<close>.\<close>

definition save :: "('a \<Rightarrow> objectId) \<Rightarrow> 'a \<Rightarrow> 'a list \<Rightarrow> 'a list" where
  "save ident doc docs = map (\<lambda>d. if ident d = ident doc then doc else d) docs"

text \<open>\<^verbatim>\<open>Model.updateMany(filter, update)\<close>.\<close>

definition updateMany :: "('a \<Rightarrow> bool) \<Rightarrow> ('a \<Rightarrow> 'a) \<Rightarrow> 'a list \<Rightarrow> 'a list" where
  "updateMany flt upd docs = map (\<lambda>d. if flt d then upd d else d) docs"

text \<open>
  \<^verbatim>\<open>Model.findByIdAndUpdate(id, update)\<close>: updates the document with that identifier and does
  nothing when there is none. Schema validators do not run on this path.
\<close>

definition findByIdAndUpdate :: "('a \<Rightarrow> objectId) \<Rightarrow> objectId \<Rightarrow> ('a \<Rightarrow> 'a) \<Rightarrow> 'a list \<Rightarrow> 'a list" where
  "findByIdAndUpdate ident i upd docs = map (\<lambda>d. if ident d = i then upd d else d) docs"

text \<open>\<^verbatim>\<open>Model.findByIdAndDelete(id)\<close>.\<close>

definition findByIdAndDelete :: "('a \<Rightarrow> objectId) \<Rightarrow> objectId \<Rightarrow> 'a list \<Rightarrow> 'a list" where
  "findByIdAndDelete ident i docs = filter (\<lambda>d. ident d \<noteq> i) docs"

section \<open>Schema validation\<close>

text \<open>
  \<^verbatim>\<open>Model.create\<close> and \<^verbatim>\<open>doc.save()\<close> run the validators of the schema on the paths of the
  document, those loaded from the store included, and throw a validation error when one
  refuses; nothing is written then.
\<close>

text \<open>The characters that \<^verbatim>\<open>\s\<close> and \<^verbatim>\<open>trim\<close> take for white space.\<close>

definition isSpace :: "char \<Rightarrow> bool" where
  "isSpace c \<longleftrightarrow>
     c \<in> set [CHR 0x09, CHR 0x0A, CHR 0x0B, CHR 0x0C, CHR 0x0D, CHR 0x20, CHR 0xA0]"

text \<open>\<open>dotted s\<close>: \<open>s\<close> has a dot with a character before it and a character after it.\<close>

definition dotted :: "string \<Rightarrow> bool" where
  "dotted s \<longleftrightarrow> CHR ''.'' \<in> set (butlast (tl s))"

fun atThenDotted :: "string \<Rightarrow> bool" where
  "atThenDotted [] = False"
| "atThenDotted (c # cs) = ((c = CHR ''@'' \<and> dotted cs) \<or> atThenDotted cs)"

text \<open>The test of \<^verbatim>\<open>/^\S+@\S+\.\S+$/\<close>, the \<^verbatim>\<open>match\<close> of the email.\<close>

definition emailMatch :: "string \<Rightarrow> bool" where
  "emailMatch s \<longleftrightarrow>
     list_all (\<lambda>c. \<not> isSpace c) s \<and> (case s of [] \<Rightarrow> False | c # cs \<Rightarrow> atThenDotted cs)"

text \<open>
  The validators of \<^verbatim>\<open>UserSchema\<close>. The password is not selected by \<^verbatim>\<open>findById\<close> and is then
  not validated; \<open>withPassword\<close> says that the query selected it.
\<close>

definition validateUser :: "bool \<Rightarrow> user \<Rightarrow> bool" where
  "validateUser withPassword u \<longleftrightarrow>
     email u \<noteq> [] \<and> emailMatch (email u) \<and>
     (if withPassword then 8 \<le> length (password u) else True) \<and>
     firstName (profile u) \<noteq> [] \<and> lastName (profile u) \<noteq> [] \<and>
     (case bio (profile u) of None \<Rightarrow> True | Some b \<Rightarrow> length b \<le> 500) \<and>
     (case hourlyRate (freelancerProfile u) of None \<Rightarrow> True | Some r \<Rightarrow> 0 \<le> r) \<and>
     0 \<le> currentStreak (gamification u) \<and> 0 \<le> longestStreak (gamification u) \<and>
     0 \<le> totalPoints (gamification u) \<and> 1 \<le> level (gamification u) \<and>
     0 \<le> jobsPosted (stats u) \<and> 0 \<le> jobsCompleted (stats u) \<and> 0 \<le> gigsCreated (stats u) \<and>
     0 \<le> totalEarnings (stats u) \<and> 0 \<le> totalSpent (stats u) \<and>
     0 \<le> rating (stats u) \<and> rating (stats u) \<le> 5 \<and> 0 \<le> reviewsCount (stats u)"

text \<open>The validators of \<^verbatim>\<open>ApplicationSchema\<close>.\<close>

definition validateApplication :: "application \<Rightarrow> bool" where
  "validateApplication a \<longleftrightarrow>
     50 \<le> length (coverLetter a) \<and> length (coverLetter a) \<le> 2000 \<and>
     (case proposedRate a of None \<Rightarrow> True | Some r \<Rightarrow> 0 \<le> r)"

section \<open>GamificationService\<close>

subsection \<open>getPointsForActivity\<close>

text \<open>The values of the enum \<^verbatim>\<open>ActivityType\<close>.\<close>

definition activityTypes :: "string list" where
  "activityTypes = [''login'', ''job_posted'', ''application_sent'',
     ''application_accepted'', ''job_completed'', ''profile_updated'']"

text \<open>
  What the property read \<^verbatim>\<open>pointsMap[type]\<close> can give: a number, or some other value
  (an object or a function), which is truthy.
\<close>

datatype jsval = Num int | Obj

text \<open>
  \<^verbatim>\<open>pointsMap\<close> is an object literal, so a read of a key that is not one of its own
  goes to \<^verbatim>\<open>Object.prototype\<close>; these are the names found there.
\<close>

definition objectPrototypeKeys :: "string list" where
  "objectPrototypeKeys = [''constructor'', ''__defineGetter__'', ''__defineSetter__'',
     ''hasOwnProperty'', ''__lookupGetter__'', ''__lookupSetter__'', ''isPrototypeOf'',
     ''propertyIsEnumerable'', ''toString'', ''valueOf'', ''__proto__'', ''toLocaleString'']"

definition pointsMap :: "string \<Rightarrow> jsval option" where
  "pointsMap t =
     (if t = ''login'' then Some (Num 5)
      else if t = ''job_posted'' then Some (Num 10)
      else if t = ''application_sent'' then Some (Num 15)
      else if t = ''application_accepted'' then Some (Num 25)
      else if t = ''job_completed'' then Some (Num 50)
      else if t = ''profile_updated'' then Some (Num 5)
      else if t \<in> set objectPrototypeKeys then Some Obj
      else None)"

text \<open>\<^verbatim>\<open>return pointsMap[type] || 0\<close>: a missing key or a zero gives 0.\<close>

definition getPointsForActivity :: "string \<Rightarrow> jsval" where
  "getPointsForActivity t =
     (case pointsMap t of
        None \<Rightarrow> Num 0
      | Some (Num n) \<Rightarrow> (if n = 0 then Num 0 else Num n)
      | Some Obj \<Rightarrow> Obj)"

subsection \<open>updateStreak\<close>

text \<open>\<^verbatim>\<open>Math.floor(Math.abs(date2.getTime() - date1.getTime()) / (1000 * 60 * 60 * 24))\<close>\<close>

definition getDaysDifference :: "date \<Rightarrow> date \<Rightarrow> int" where
  "getDaysDifference date1 date2 = \<bar>date2 - date1\<bar> div (1000 * 60 * 60 * 24)"

text \<open>The clock reading \<^verbatim>\<open>new Date()\<close> of the call is the parameter \<open>now\<close>.\<close>

definition updateStreak :: "date \<Rightarrow> gamification \<Rightarrow> gamification" where
  "updateStreak now g =
     (case lastActivityDate g of
        None \<Rightarrow> g\<lparr>currentStreak := 1, longestStreak := 1, lastActivityDate := Some now\<rparr>
      | Some lastActivity \<Rightarrow>
          (let daysSinceLastActivity = getDaysDifference lastActivity now in
           if daysSinceLastActivity = 0 then g
           else if daysSinceLastActivity = 1 then
             (let g1 = g\<lparr>currentStreak := currentStreak g + 1\<rparr>;
                  g2 = (if currentStreak g1 > longestStreak g1
                        then g1\<lparr>longestStreak := currentStreak g1\<rparr> else g1)
              in g2\<lparr>lastActivityDate := Some now\<rparr>)
           else g\<lparr>currentStreak := 1, lastActivityDate := Some now\<rparr>))"

subsection \<open>checkAchievements\<close>

text \<open>The \<^verbatim>\<open>switch\<close> on \<^verbatim>\<open>achievement.criteria.type\<close>; any other type leaves \<^verbatim>\<open>achieved\<close> false.\<close>

definition achieved :: "user \<Rightarrow> achievement \<Rightarrow> bool" where
  "achieved u a =
     (if criteria_type a = ''streak_days''
        then currentStreak (gamification u) \<ge> criteria_target a
      else if criteria_type a = ''jobs_completed''
        then jobsCompleted (stats u) \<ge> criteria_target a
      else if criteria_type a = ''total_points''
        then totalPoints (gamification u) \<ge> criteria_target a
      else False)"

text \<open>
  One iteration of the \<^verbatim>\<open>for\<close> loop, on the user as mutated so far. The user's
  \<^verbatim>\<open>achievements\<close> is a Mongoose array, whose \<^verbatim>\<open>includes\<close> compares identifiers by value.
\<close>

definition checkOne :: "user \<Rightarrow> achievement \<Rightarrow> user" where
  "checkOne u a =
     (if ach_id a \<in> set (achievements (gamification u)) then u
      else if achieved u a then
        u\<lparr>gamification := (gamification u)
             \<lparr>achievements := achievements (gamification u) @ [ach_id a],
              totalPoints := totalPoints (gamification u) + ach_points a\<rparr>\<rparr>
      else u)"

fun checkLoop :: "user \<Rightarrow> achievement list \<Rightarrow> user" where
  "checkLoop u [] = u"
| "checkLoop u (a # rest) = checkLoop (checkOne u a) rest"

text \<open>\<^verbatim>\<open>Achievement.find({ isActive: true })\<close>, then the loop.\<close>

definition checkAchievements :: "achievement list \<Rightarrow> user \<Rightarrow> user" where
  "checkAchievements catalog u = checkLoop u (filter isActive catalog)"

subsection \<open>recordActivity\<close>

text \<open>
  \<^verbatim>\<open>ActivityEvent.create\<close> runs the validators of \<^verbatim>\<open>ActivityEventSchema\<close>: \<^verbatim>\<open>type\<close> must be
  a value of the enum, \<^verbatim>\<open>points\<close> must be a number that is at least 0.
\<close>

definition ActivityEvent_create ::
  "objectId \<Rightarrow> string \<Rightarrow> jsval \<Rightarrow> string option \<Rightarrow> date \<Rightarrow> activityEvent list
     \<Rightarrow> error + activityEvent list" where
  "ActivityEvent_create userId t points metadata d evs =
     (case points of
        Obj \<Rightarrow> Inl MongooseValidationError
      | Num n \<Rightarrow>
          if t \<in> set activityTypes \<and> n \<ge> 0
          then Inr (evs @ [\<lparr>ev_userId = userId, ev_type = t, ev_points = n,
                             ev_metadata = metadata, ev_date = d\<rparr>])
          else Inl MongooseValidationError)"

text \<open>
  \<^verbatim>\<open>user.gamification.totalPoints += points\<close>; it is reached only after the event was
  created, so \<open>points\<close> is a number there.
\<close>

definition addPoints :: "jsval \<Rightarrow> user \<Rightarrow> user" where
  "addPoints points u =
     (case points of
        Num n \<Rightarrow> u\<lparr>gamification := (gamification u)\<lparr>totalPoints := totalPoints (gamification u) + n\<rparr>\<rparr>
      | Obj \<Rightarrow> u)"

text \<open>
  The two clock readings of the call are parameters: \<open>tEvent\<close> for the ledger entry and
  \<open>tStreak\<close> for \<^verbatim>\<open>updateStreak\<close>. The result is the outcome and the database after the call.
  When \<^verbatim>\<open>user.save()\<close> refuses the user, the call throws with the ledger entry stored and the
  user as it was.
\<close>

definition recordActivity ::
  "objectId \<Rightarrow> string \<Rightarrow> string option \<Rightarrow> date \<Rightarrow> date \<Rightarrow> db \<Rightarrow> (error + unit) \<times> db" where
  "recordActivity userId t metadata tEvent tStreak d =
     (case findById user_id userId (users d) of
        None \<Rightarrow> (Inl NotFoundError, d)
      | Some u \<Rightarrow>
          (let points = getPointsForActivity t in
           case ActivityEvent_create userId t points metadata tEvent (activityEvents d) of
             Inl e \<Rightarrow> (Inl e, d)
           | Inr evs \<Rightarrow>
               (let u1 = addPoints points u;
                    u2 = u1\<lparr>gamification := updateStreak tStreak (gamification u1)\<rparr>;
                    u3 = checkAchievements (achievementCatalog d) u2
                in if validateUser False u3
                   then (Inr (), d\<lparr>activityEvents := evs, users := save user_id u3 (users d)\<rparr>)
                   else (Inl MongooseValidationError, d\<lparr>activityEvents := evs\<rparr>))))"

subsection \<open>getUserGamificationStats\<close>

definition calculateLevel :: "int \<Rightarrow> int" where
  "calculateLevel points = points div 100 + 1"

record gamificationStats =
  gs_level :: int
  gs_totalPoints :: int
  gs_currentStreak :: int
  gs_longestStreak :: int
  gs_achievements :: "objectId list"
  gs_recentActivities :: "activityEvent list"

text \<open>
  \<^verbatim>\<open>ActivityEvent.find({ userId }).sort({ date: -1 }).limit(10)\<close>: newest first; events of
  the same date are kept in insertion order here.
\<close>

definition recentActivities :: "objectId \<Rightarrow> activityEvent list \<Rightarrow> activityEvent list" where
  "recentActivities userId evs =
     take 10 (sort_key (\<lambda>e. - ev_date e) (filter (\<lambda>e. ev_userId e = userId) evs))"

definition getUserGamificationStats :: "objectId \<Rightarrow> db \<Rightarrow> error + gamificationStats" where
  "getUserGamificationStats userId d =
     (case findById user_id userId (users d) of
        None \<Rightarrow> Inl NotFoundError
      | Some u \<Rightarrow>
          Inr \<lparr>gs_level = calculateLevel (totalPoints (gamification u)),
               gs_totalPoints = totalPoints (gamification u),
               gs_currentStreak = currentStreak (gamification u),
               gs_longestStreak = longestStreak (gamification u),
               gs_achievements = achievements (gamification u),
               gs_recentActivities = recentActivities userId (activityEvents d)\<rparr>)"

section \<open>ApplicationService\<close>

record createApplicationInput =
  ca_jobId :: objectId
  ca_coverLetter :: string
  ca_proposedRate :: "real option"

text \<open>
  \<^verbatim>\<open>Application.create\<close>: the validators run first; the unique index on
  \<^verbatim>\<open>{ jobId, freelancerId }\<close> refuses a second document of a pair.
\<close>

definition Application_create :: "application \<Rightarrow> application list \<Rightarrow> error + application list" where
  "Application_create doc apps =
     (if \<not> validateApplication doc then Inl MongooseValidationError
      else if \<exists>a \<in> set apps. jobId a = jobId doc \<and> freelancerId a = freelancerId doc
        then Inl DuplicateKeyError
      else Inr (apps @ [doc]))"

definition incApplicationsCount :: "int \<Rightarrow> job \<Rightarrow> job" where
  "incApplicationsCount k j =
     j\<lparr>job_stats := (job_stats j)\<lparr>applicationsCount := applicationsCount (job_stats j) + k\<rparr>\<rparr>"

text \<open>
  \<open>newId\<close> is the identifier the store gives the new document and \<open>now\<close> the clock reading
  of \<^verbatim>\<open>appliedAt\<close>.
\<close>

definition createApplication ::
  "objectId \<Rightarrow> createApplicationInput \<Rightarrow> objectId \<Rightarrow> date \<Rightarrow> db
     \<Rightarrow> (error + application) \<times> db" where
  "createApplication fId data newId now d =
     (case findById job_id (ca_jobId data) (jobs d) of
        None \<Rightarrow> (Inl NotFoundError, d)
      | Some j \<Rightarrow>
          if job_status j \<noteq> Open then (Inl (AppError 400 ''JOB_NOT_OPEN''), d)
          else if clientId j = fId then (Inl (AppError 400 ''CANNOT_APPLY_OWN_JOB''), d)
          else
            (case find (\<lambda>a. jobId a = ca_jobId data \<and> freelancerId a = fId) (applications d) of
               Some existingApplication \<Rightarrow> (Inl (AppError 409 ''ALREADY_APPLIED''), d)
             | None \<Rightarrow>
                 (let doc = \<lparr>app_id = newId, jobId = ca_jobId data, freelancerId = fId,
                             coverLetter = ca_coverLetter data,
                             proposedRate = ca_proposedRate data, app_status = Pending,
                             appliedAt = now, respondedAt = None\<rparr>
                  in case Application_create doc (applications d) of
                       Inl e \<Rightarrow> (Inl e, d)
                     | Inr apps \<Rightarrow>
                         (Inr doc, d\<lparr>applications := apps,
                                     jobs := findByIdAndUpdate job_id (ca_jobId data)
                                               (incApplicationsCount 1) (jobs d)\<rparr>))))"

text \<open>
  \<^verbatim>\<open>findById(applicationId).populate('jobId')\<close> puts the job document, or \<^verbatim>\<open>null\<close> when the
  job is gone, in place of the reference; reading \<^verbatim>\<open>clientId\<close> of \<^verbatim>\<open>null\<close> throws. \<open>t1\<close> and
  \<open>t2\<close> are the clock readings of the two \<^verbatim>\<open>new Date()\<close>. When \<^verbatim>\<open>application.save()\<close>
  refuses the document, the call throws before any write.
\<close>

definition acceptApplication ::
  "objectId \<Rightarrow> objectId \<Rightarrow> date \<Rightarrow> date \<Rightarrow> db \<Rightarrow> (error + application) \<times> db" where
  "acceptApplication applicationId userId t1 t2 d =
     (case findById app_id applicationId (applications d) of
        None \<Rightarrow> (Inl NotFoundError, d)
      | Some application \<Rightarrow>
          (case findById job_id (jobId application) (jobs d) of
             None \<Rightarrow> (Inl TypeError, d)
           | Some j \<Rightarrow>
               if clientId j \<noteq> userId then (Inl ForbiddenError, d)
               else if job_status j \<noteq> Open then (Inl (AppError 400 ''JOB_NOT_OPEN''), d)
               else if app_status application \<noteq> Pending
                 then (Inl (AppError 400 ''APPLICATION_NOT_PENDING''), d)
               else
                 (let application' = application\<lparr>app_status := Accepted, respondedAt := Some t1\<rparr>
                  in if \<not> validateApplication application' then (Inl MongooseValidationError, d)
                  else let
                      apps1 = save app_id application' (applications d);
                      apps2 = updateMany
                                (\<lambda>a. jobId a = job_id j \<and> app_id a \<noteq> applicationId
                                      \<and> app_status a = Pending)
                                (\<lambda>a. a\<lparr>app_status := Rejected, respondedAt := Some t2\<rparr>)
                                apps1
                  in (Inr application', d\<lparr>applications := apps2\<rparr>))))"

text \<open>\<^verbatim>\<open>withdrawApplication\<close>: the save is validated, then the counter of the job is decremented.\<close>

definition withdrawApplication ::
  "objectId \<Rightarrow> objectId \<Rightarrow> db \<Rightarrow> (error + application) \<times> db" where
  "withdrawApplication applicationId userId d =
     (case findById app_id applicationId (applications d) of
        None \<Rightarrow> (Inl NotFoundError, d)
      | Some application \<Rightarrow>
          if freelancerId application \<noteq> userId then (Inl ForbiddenError, d)
          else if app_status application \<noteq> Pending
            then (Inl (AppError 400 ''CANNOT_WITHDRAW_APPLICATION''), d)
          else
            (let application' = application\<lparr>app_status := Withdrawn\<rparr>
             in if \<not> validateApplication application' then (Inl MongooseValidationError, d)
                else
                  (Inr application',
                   d\<lparr>applications := save app_id application' (applications d),
                     jobs := findByIdAndUpdate job_id (jobId application)
                               (incApplicationsCount (- 1)) (jobs d)\<rparr>)))"

text \<open>\<^verbatim>\<open>deleteApplication\<close>: no document is saved, so no validator runs.\<close>

definition deleteApplication ::
  "objectId \<Rightarrow> objectId \<Rightarrow> db \<Rightarrow> (error + unit) \<times> db" where
  "deleteApplication applicationId userId d =
     (case findById app_id applicationId (applications d) of
        None \<Rightarrow> (Inl NotFoundError, d)
      | Some application \<Rightarrow>
          if freelancerId application \<noteq> userId then (Inl ForbiddenError, d)
          else
            (Inr (),
             d\<lparr>applications := findByIdAndDelete app_id applicationId (applications d),
               jobs := findByIdAndUpdate job_id (jobId application)
                         (incApplicationsCount (- 1)) (jobs d)\<rparr>))"

section \<open>AuthService and JobService\<close>




section \<open>UserService\<close>




section \<open>Auxiliary definitions for the statements\<close>

text \<open>The user document a successful \<open>recordActivity\<close> saves, as a function of the one it loaded.\<close>

definition recorded :: "string \<Rightarrow> date \<Rightarrow> achievement list \<Rightarrow> user \<Rightarrow> user" where
  "recorded t tStreak catalog u =
     checkAchievements catalog
       ((addPoints (getPointsForActivity t) u)
          \<lparr>gamification := updateStreak tStreak (gamification (addPoints (getPointsForActivity t) u))\<rparr>)"

text \<open>The catalog entries a run of the loop unlocks, in the order it unlocks them.\<close>

fun unlocked :: "user \<Rightarrow> achievement list \<Rightarrow> achievement list" where
  "unlocked u [] = []"
| "unlocked u (a # rest) =
     (if ach_id a \<notin> set (achievements (gamification u)) \<and> achieved u a
      then a # unlocked (checkOne u a) rest
      else unlocked (checkOne u a) rest)"

text \<open>The invariant of the streak counters that \<open>updateStreak\<close> maintains.\<close>

definition streakInv :: "gamification \<Rightarrow> bool" where
  "streakInv g \<longleftrightarrow>
     longestStreak g \<ge> currentStreak g \<and> (lastActivityDate g \<noteq> None \<longrightarrow> longestStreak g \<ge> 1)"

subsection \<open>Example data\<close>

definition exGamification :: gamification where
  "exGamification = \<lparr>currentStreak = 2, longestStreak = 3, lastActivityDate = Some 0,
     totalPoints = 95, level = 1, achievements = []\<rparr>"

definition exUser :: user where
  "exUser = \<lparr>user_id = ''u1'', email = ''ana@example.org'', password = ''$2a$12$stored.hash'',
     role = Client, accountStatus = AccActive,
     profile = \<lparr>firstName = ''Ana'', lastName = ''Soto'', avatar = None, bio = None,
                location = None, phone = None\<rparr>,
     freelancerProfile = \<lparr>hourlyRate = None, availability = Available\<rparr>,
     gamification = exGamification,
     stats = \<lparr>jobsPosted = 0, jobsCompleted = 0, gigsCreated = 0, totalEarnings = 0,
              totalSpent = 0, rating = 0, reviewsCount = 0\<rparr>,
     refreshTokens = [], lastLoginAt = None\<rparr>"

definition exDb :: db where
  "exDb = \<lparr>users = [exUser], jobs = [], applications = [], activityEvents = [],
     achievementCatalog = []\<rparr>"

text \<open>A user whose last activity is recorded while both streak counters are 0.\<close>

definition exUserZero :: user where
  "exUserZero = exUser\<lparr>gamification := exGamification\<lparr>currentStreak := 0, longestStreak := 0\<rparr>\<rparr>"

definition exDbZero :: db where
  "exDbZero = exDb\<lparr>users := [exUserZero]\<rparr>"

definition oneDay :: int where
  "oneDay = 86400000"

text \<open>Catalog entries: a streak achievement and two \<^verbatim>\<open>total_points\<close> achievements.\<close>

definition exStreakAch :: achievement where
  "exStreakAch = \<lparr>ach_id = ''a1'', ach_name = ''First steps'', criteria_type = ''streak_days'',
     criteria_target = 1, ach_points = 50, isActive = True\<rparr>"

definition exPointsAch :: achievement where
  "exPointsAch = \<lparr>ach_id = ''b1'', ach_name = ''Centurion'', criteria_type = ''total_points'',
     criteria_target = 100, ach_points = 10, isActive = True\<rparr>"

definition exFarAch :: achievement where
  "exFarAch = \<lparr>ach_id = ''c1'', ach_name = ''Legend'', criteria_type = ''total_points'',
     criteria_target = 1000, ach_points = 10, isActive = True\<rparr>"

text \<open>
  An open job with three applications (two pending, one withdrawn) and a job in progress
  with an accepted application.
\<close>

definition exJob :: job where
  "exJob = \<lparr>job_id = ''j1'', title = ''Build a web shop'', clientId = ''c1'', job_status = Open,
     assignedFreelancerId = None,
     job_stats = \<lparr>views = 0, applicationsCount = 2, savedCount = 0\<rparr>\<rparr>"

definition exJobBusy :: job where
  "exJobBusy = \<lparr>job_id = ''j2'', title = ''Translate a manual'', clientId = ''c1'',
     job_status = In_progress, assignedFreelancerId = Some ''f1'',
     job_stats = \<lparr>views = 0, applicationsCount = 1, savedCount = 0\<rparr>\<rparr>"

definition exLetter :: string where
  "exLetter = ''I have built three shops of this kind and can start on Monday.''"

definition exApp1 :: application where
  "exApp1 = \<lparr>app_id = ''a1'', jobId = ''j1'', freelancerId = ''f1'', coverLetter = exLetter,
     proposedRate = None, app_status = Pending, appliedAt = 1, respondedAt = None\<rparr>"

definition exApp2 :: application where
  "exApp2 = \<lparr>app_id = ''a2'', jobId = ''j1'', freelancerId = ''f2'', coverLetter = exLetter,
     proposedRate = Some 40, app_status = Pending, appliedAt = 2, respondedAt = None\<rparr>"

definition exApp3 :: application where
  "exApp3 = \<lparr>app_id = ''a3'', jobId = ''j1'', freelancerId = ''f3'', coverLetter = exLetter,
     proposedRate = None, app_status = Withdrawn, appliedAt = 3, respondedAt = None\<rparr>"

definition exApp4 :: application where
  "exApp4 = \<lparr>app_id = ''a4'', jobId = ''j2'', freelancerId = ''f1'', coverLetter = exLetter,
     proposedRate = None, app_status = Accepted, appliedAt = 4, respondedAt = Some 5\<rparr>"

text \<open>A pending application whose stored cover letter is shorter than the schema allows.\<close>

definition exAppShort :: application where
  "exAppShort = exApp1\<lparr>coverLetter := ''too short''\<rparr>"

definition exDbShort :: db where
  "exDbShort = exDb\<lparr>jobs := [exJob], applications := [exAppShort]\<rparr>"

definition exDbApps :: db where
  "exDbApps = exDb\<lparr>jobs := [exJob, exJobBusy], applications := [exApp1, exApp2, exApp3, exApp4]\<rparr>"

definition exTokens :: "objectId \<Rightarrow> string \<Rightarrow> userRole \<Rightarrow> string \<times> string" where
  "exTokens uid mail r = (''access-'' @ uid, ''refresh-'' @ uid)"

lemma find_map_ident:
  assumes "\<And>x. f (g x) = f x"
  shows "find (\<lambda>x. f x = i) (map g xs) = map_option g (find (\<lambda>x. f x = i) xs)"
  by (induction xs) (simp_all add: assms)

lemma findById_ident: "findById ident i docs = Some a \<Longrightarrow> ident a = i"
  unfolding findById_def by (induction docs) (auto split: if_splits)

lemma findById_save_same:
  "findById ident i docs = Some a \<Longrightarrow> ident doc = i \<Longrightarrow> findById ident i (save ident doc docs) = Some doc"
  unfolding findById_def save_def
  by (induction docs) (auto split: if_splits)

lemma findById_save_other:
  "ident doc \<noteq> i \<Longrightarrow> findById ident i (save ident doc docs) = findById ident i docs"
  unfolding findById_def save_def
  by (induction docs) (auto split: if_splits)

lemma findById_findByIdAndUpdate:
  assumes "\<And>x. ident (upd x) = ident x"
  shows "findById ident i (findByIdAndUpdate ident k upd docs)
         = map_option (\<lambda>x. if ident x = k then upd x else x) (findById ident i docs)"
  unfolding findById_def findByIdAndUpdate_def
  by (rule find_map_ident) (simp add: assms)

lemma checkOne_keeps:
  "user_id (checkOne u a) = user_id u"
  "stats (checkOne u a) = stats u"
  "currentStreak (gamification (checkOne u a)) = currentStreak (gamification u)"
  "longestStreak (gamification (checkOne u a)) = longestStreak (gamification u)"
  "lastActivityDate (gamification (checkOne u a)) = lastActivityDate (gamification u)"
  "level (gamification (checkOne u a)) = level (gamification u)"
  by (simp_all add: checkOne_def)

lemma checkLoop_keeps:
  "user_id (checkLoop u as) = user_id u"
  "stats (checkLoop u as) = stats u"
  "currentStreak (gamification (checkLoop u as)) = currentStreak (gamification u)"
  "longestStreak (gamification (checkLoop u as)) = longestStreak (gamification u)"
  "lastActivityDate (gamification (checkLoop u as)) = lastActivityDate (gamification u)"
  "level (gamification (checkLoop u as)) = level (gamification u)"
  by (induction as arbitrary: u) (simp_all add: checkOne_keeps)

lemma addPoints_keeps:
  "user_id (addPoints p u) = user_id u"
  "stats (addPoints p u) = stats u"
  "currentStreak (gamification (addPoints p u)) = currentStreak (gamification u)"
  "longestStreak (gamification (addPoints p u)) = longestStreak (gamification u)"
  "lastActivityDate (gamification (addPoints p u)) = lastActivityDate (gamification u)"
  "level (gamification (addPoints p u)) = level (gamification u)"
  "achievements (gamification (addPoints p u)) = achievements (gamification u)"
  by (cases p; simp add: addPoints_def)+

lemma recordActivity_rejected:
  assumes "findById user_id userId (users d) = Some u" "t \<notin> set activityTypes"
  shows "recordActivity userId t md tE tS d = (Inl MongooseValidationError, d)"
  using assms
  by (cases "getPointsForActivity t")
     (simp_all add: recordActivity_def ActivityEvent_create_def Let_def)

lemma known_points:
  "t \<in> set activityTypes \<Longrightarrow>
     \<exists>n. pointsMap t = Some (Num n) \<and> getPointsForActivity t = Num n \<and> 0 < n"
  by (auto simp: activityTypes_def getPointsForActivity_def pointsMap_def)

lemma recordActivity_accepted:
  assumes "findById user_id userId (users d) = Some u" "t \<in> set activityTypes"
      and "getPointsForActivity t = Num n"
  shows "recordActivity userId t md tE tS d =
           (if validateUser False (recorded t tS (achievementCatalog d) u)
            then (Inr (), d\<lparr>activityEvents := activityEvents d @
                    [\<lparr>ev_userId = userId, ev_type = t, ev_points = n, ev_metadata = md, ev_date = tE\<rparr>],
                  users := save user_id (recorded t tS (achievementCatalog d) u) (users d)\<rparr>)
            else (Inl MongooseValidationError, d\<lparr>activityEvents := activityEvents d @
                    [\<lparr>ev_userId = userId, ev_type = t, ev_points = n, ev_metadata = md, ev_date = tE\<rparr>]\<rparr>))"
proof -
  have "0 \<le> n" using known_points[OF assms(2)] assms(3) by auto
  then show ?thesis
    using assms by (simp add: recordActivity_def ActivityEvent_create_def recorded_def Let_def)
qed

lemma recorded_user_id: "user_id (recorded t tS cat u) = user_id u"
  by (simp add: recorded_def checkAchievements_def checkLoop_keeps addPoints_keeps)

lemma recordActivity_user:
  assumes "findById user_id userId (users d) = Some u"
  shows "findById user_id userId (users (snd (recordActivity userId t md tE tS d))) =
          Some (if fst (recordActivity userId t md tE tS d) = Inr ()
                then recorded t tS (achievementCatalog d) u else u)"
proof (cases "t \<in> set activityTypes")
  case False
  then show ?thesis using recordActivity_rejected[OF assms False] assms by simp
next
  case True
  have uid: "user_id u = userId" using assms by (rule findById_ident)
  from known_points[OF True] obtain n where n: "getPointsForActivity t = Num n" by blast
  show ?thesis
    using findById_save_same[OF assms, of "recorded t tS (achievementCatalog d) u"] assms
    by (simp add: recordActivity_accepted[OF assms True n] recorded_user_id uid)
qed

lemma recorded_streak:
  "currentStreak (gamification (recorded t tS cat u)) = currentStreak (updateStreak tS (gamification u))"
  "longestStreak (gamification (recorded t tS cat u)) = longestStreak (updateStreak tS (gamification u))"
  "lastActivityDate (gamification (recorded t tS cat u)) = lastActivityDate (updateStreak tS (gamification u))"
  by (cases "getPointsForActivity t";
      simp add: recorded_def checkAchievements_def checkLoop_keeps addPoints_def updateStreak_def Let_def
           split: option.splits)+

lemma getDaysDifference_nonneg: "0 \<le> getDaysDifference a b"
  by (simp add: getDaysDifference_def)

text \<open>
  Claim C1. A successful \<open>recordActivity\<close> at clock reading \<open>now\<close> stores a user whose streak
  fields follow the case analysis: with no last activity date, both counters become 1 and the
  date becomes \<open>now\<close>; otherwise, with the number of whole elapsed days
  \<open>\<bar>now - last\<bar> div 86400000\<close>: 0 days leaves the three fields as they were, 1 day adds one to
  the current streak, makes the longest streak the maximum of itself and the new current
  streak and sets the date to \<open>now\<close>, 2 days or more resets the current streak to 1, keeps the
  longest streak and sets the date to \<open>now\<close>.
\<close>

theorem C1_streak_update_cases:
  assumes "findById user_id userId (users d) = Some u"
      and "fst (recordActivity userId t md tE now d) = Inr ()"
  shows "\<exists>u'. findById user_id userId (users (snd (recordActivity userId t md tE now d))) = Some u' \<and>
     (lastActivityDate (gamification u) = None \<longrightarrow>
        currentStreak (gamification u') = 1 \<and> longestStreak (gamification u') = 1 \<and>
        lastActivityDate (gamification u') = Some now) \<and>
     (\<forall>last. lastActivityDate (gamification u) = Some last \<longrightarrow>
        (\<bar>now - last\<bar> div 86400000 = 0 \<longrightarrow>
           currentStreak (gamification u') = currentStreak (gamification u) \<and>
           longestStreak (gamification u') = longestStreak (gamification u) \<and>
           lastActivityDate (gamification u') = Some last) \<and>
        (\<bar>now - last\<bar> div 86400000 = 1 \<longrightarrow>
           currentStreak (gamification u') = currentStreak (gamification u) + 1 \<and>
           longestStreak (gamification u') =
             max (longestStreak (gamification u)) (currentStreak (gamification u) + 1) \<and>
           lastActivityDate (gamification u') = Some now) \<and>
        (\<bar>now - last\<bar> div 86400000 \<ge> 2 \<longrightarrow>
           currentStreak (gamification u') = 1 \<and>
           longestStreak (gamification u') = longestStreak (gamification u) \<and>
           lastActivityDate (gamification u') = Some now))"
proof -
  let ?u' = "recorded t now (achievementCatalog d) u"
  have found: "findById user_id userId (users (snd (recordActivity userId t md tE now d))) = Some ?u'"
    using recordActivity_user[OF assms(1), of t md tE now] assms(2) by simp
  have first: "lastActivityDate (gamification u) = None \<Longrightarrow>
        currentStreak (gamification ?u') = 1 \<and> longestStreak (gamification ?u') = 1 \<and>
        lastActivityDate (gamification ?u') = Some now"
    by (simp add: recorded_streak updateStreak_def)
  have later: "lastActivityDate (gamification u) = Some last \<Longrightarrow>
        (\<bar>now - last\<bar> div 86400000 = 0 \<longrightarrow>
           currentStreak (gamification ?u') = currentStreak (gamification u) \<and>
           longestStreak (gamification ?u') = longestStreak (gamification u) \<and>
           lastActivityDate (gamification ?u') = Some last) \<and>
        (\<bar>now - last\<bar> div 86400000 = 1 \<longrightarrow>
           currentStreak (gamification ?u') = currentStreak (gamification u) + 1 \<and>
           longestStreak (gamification ?u') =
             max (longestStreak (gamification u)) (currentStreak (gamification u) + 1) \<and>
           lastActivityDate (gamification ?u') = Some now) \<and>
        (\<bar>now - last\<bar> div 86400000 \<ge> 2 \<longrightarrow>
           currentStreak (gamification ?u') = 1 \<and>
           longestStreak (gamification ?u') = longestStreak (gamification u) \<and>
           lastActivityDate (gamification ?u') = Some now)" for last
    by (simp add: recorded_streak updateStreak_def getDaysDifference_def Let_def max_def)
  show ?thesis
    by (intro exI[of _ ?u'] conjI allI impI found) (use first later in \<open>simp_all only:\<close>)
qed


lemmas ex_defs = exDb_def exUser_def exGamification_def exUserZero_def exDbZero_def oneDay_def

lemmas run_defs = recordActivity_def findById_def getPointsForActivity_def pointsMap_def
  ActivityEvent_create_def activityTypes_def addPoints_def updateStreak_def getDaysDifference_def
  checkAchievements_def save_def Let_def objectPrototypeKeys_def validateUser_def emailMatch_def
  isSpace_def dotted_def

theorem C1_streak_update_cases_witness:
  "findById user_id ''u1'' (users exDb) = Some exUser \<and>
   fst (recordActivity ''u1'' ''login'' None oneDay oneDay exDb) = Inr () \<and>
   (\<exists>u'. findById user_id ''u1'' (users (snd (recordActivity ''u1'' ''login'' None oneDay oneDay exDb)))
            = Some u' \<and>
         currentStreak (gamification u') = 3 \<and> longestStreak (gamification u') = 3 \<and>
         lastActivityDate (gamification u') = Some oneDay)"
proof -
  have h1: "findById user_id ''u1'' (users exDb) = Some exUser"
    by (simp add: findById_def ex_defs)
  have h2: "fst (recordActivity ''u1'' ''login'' None oneDay oneDay exDb) = Inr ()"
    by (simp add: run_defs ex_defs)
  have h3: "lastActivityDate (gamification exUser) = Some 0" "\<bar>oneDay - 0\<bar> div 86400000 = 1"
    "currentStreak (gamification exUser) = 2" "longestStreak (gamification exUser) = 3"
    by (simp_all add: ex_defs)
  from C1_streak_update_cases [OF h1 h2] h3 show ?thesis
    using h1 h2 by auto
qed

lemma streakInv_default:
  "streakInv \<lparr>currentStreak = 0, longestStreak = 0, lastActivityDate = None, totalPoints = 0,
     level = 1, achievements = []\<rparr>"
  by (simp add: streakInv_def)

lemma updateStreak_inv: "streakInv g \<Longrightarrow> streakInv (updateStreak now g)"
  by (auto simp: streakInv_def updateStreak_def Let_def split: option.splits)

text \<open>
  Claim C2, amended. For a user whose state satisfies \<open>longestStreak \<ge> currentStreak\<close> and,
  when a last activity date is recorded, \<open>longestStreak \<ge> 1\<close>, the state after any
  \<open>recordActivity\<close> call (any type, any clock readings, any catalog, failed or not) satisfies
  both again; so \<open>longestStreak \<ge> currentStreak\<close> holds after the call.
\<close>

theorem C2_streak_invariant_amended:
  assumes "findById user_id userId (users d) = Some u"
      and "streakInv (gamification u)"
  shows "\<exists>u'. findById user_id userId (users (snd (recordActivity userId t md tE now d))) = Some u' \<and>
           streakInv (gamification u') \<and> longestStreak (gamification u') \<ge> currentStreak (gamification u')"
proof (cases "fst (recordActivity userId t md tE now d) = Inr ()")
  case True
  have "streakInv (gamification (recorded t now (achievementCatalog d) u))"
    using updateStreak_inv[OF assms(2), of now]
    by (simp add: streakInv_def recorded_streak)
  then show ?thesis
    using recordActivity_user[OF assms(1), of t md tE now] True by (simp add: streakInv_def)
next
  case False
  then show ?thesis
    using recordActivity_user[OF assms(1), of t md tE now] assms(2) by (simp add: streakInv_def)
qed

theorem C2_streak_invariant_amended_witness:
  "findById user_id ''u1'' (users exDb) = Some exUser \<and> streakInv (gamification exUser) \<and>
   (\<exists>u'. findById user_id ''u1'' (users (snd (recordActivity ''u1'' ''login'' None oneDay (3 * oneDay) exDb)))
            = Some u' \<and> streakInv (gamification u') \<and>
            longestStreak (gamification u') \<ge> currentStreak (gamification u'))"
proof -
  have h1: "findById user_id ''u1'' (users exDb) = Some exUser"
    by (simp add: findById_def ex_defs)
  have h2: "streakInv (gamification exUser)"
    by (simp add: streakInv_def ex_defs)
  show ?thesis
    using h1 h2 C2_streak_invariant_amended [OF h1 h2, of "''login''" None oneDay "3 * oneDay"]
    by simp
qed

text \<open>
  Claim C2 as stated fails: with both counters 0 and a last activity date two days back, the
  reset branch stores \<open>currentStreak = 1\<close> above \<open>longestStreak = 0\<close>.
\<close>

theorem C2_streak_invariant_counterexample:
  "longestStreak (gamification exUserZero) \<ge> currentStreak (gamification exUserZero) \<and>
   findById user_id ''u1'' (users exDbZero) = Some exUserZero \<and>
   fst (recordActivity ''u1'' ''login'' None (2 * oneDay) (2 * oneDay) exDbZero) = Inr () \<and>
   map_option (currentStreak \<circ> gamification)
     (findById user_id ''u1''
        (users (snd (recordActivity ''u1'' ''login'' None (2 * oneDay) (2 * oneDay) exDbZero)))) = Some 1 \<and>
   map_option (longestStreak \<circ> gamification)
     (findById user_id ''u1''
        (users (snd (recordActivity ''u1'' ''login'' None (2 * oneDay) (2 * oneDay) exDbZero)))) = Some 0"
  by (simp add: run_defs ex_defs)

lemma recorded_level: "level (gamification (recorded t tS cat u)) = level (gamification u)"
  by (cases "getPointsForActivity t")
     (simp_all add: recorded_def checkAchievements_def checkLoop_keeps addPoints_def updateStreak_def
        Let_def split: option.splits)

text \<open>
  Claim C7, amended. After any \<open>recordActivity\<close> call for an existing user, the stats read
  succeeds and reports the stored \<open>totalPoints\<close> together with the level
  \<open>totalPoints div 100 + 1\<close> computed from it; the stored field \<open>gamification.level\<close> is not
  written by \<open>recordActivity\<close> and keeps the value it had.
\<close>

theorem C7_level_on_read:
  assumes "findById user_id userId (users d) = Some u"
  shows "\<exists>u' s. findById user_id userId (users (snd (recordActivity userId t md tE now d))) = Some u' \<and>
           getUserGamificationStats userId (snd (recordActivity userId t md tE now d)) = Inr s \<and>
           gs_totalPoints s = totalPoints (gamification u') \<and>
           gs_level s = totalPoints (gamification u') div 100 + 1 \<and>
           level (gamification u') = level (gamification u)"
  using recordActivity_user[OF assms, of t md tE now]
  by (simp add: getUserGamificationStats_def calculateLevel_def recorded_level)

theorem C7_level_on_read_witness:
  "findById user_id ''u1'' (users exDb) = Some exUser \<and>
   (\<exists>u' s. findById user_id ''u1'' (users (snd (recordActivity ''u1'' ''login'' None 5 5 exDb))) = Some u' \<and>
           getUserGamificationStats ''u1'' (snd (recordActivity ''u1'' ''login'' None 5 5 exDb)) = Inr s \<and>
           gs_totalPoints s = totalPoints (gamification u') \<and>
           gs_level s = totalPoints (gamification u') div 100 + 1 \<and>
           level (gamification u') = 1)"
proof -
  have h1: "findById user_id ''u1'' (users exDb) = Some exUser"
    by (simp add: findById_def ex_defs)
  have h2: "level (gamification exUser) = 1"
    by (simp add: ex_defs)
  show ?thesis
    using h1 h2 C7_level_on_read [OF h1, of "''login''" None 5 5] by simp
qed

text \<open>
  Claim C7 as stated fails for the stored level: a login that takes a user from 95 to 100
  points leaves \<open>gamification.level\<close> at 1, where the formula gives 2.
\<close>

theorem C7_level_counterexample:
  "level (gamification exUser) = totalPoints (gamification exUser) div 100 + 1 \<and>
   fst (recordActivity ''u1'' ''login'' None 5 5 exDb) = Inr () \<and>
   map_option (totalPoints \<circ> gamification)
     (findById user_id ''u1'' (users (snd (recordActivity ''u1'' ''login'' None 5 5 exDb)))) = Some 100 \<and>
   map_option (level \<circ> gamification)
     (findById user_id ''u1'' (users (snd (recordActivity ''u1'' ''login'' None 5 5 exDb)))) = Some 1 \<and>
   calculateLevel 100 = 2"
  by (simp add: run_defs ex_defs calculateLevel_def)

lemma checkLoop_append: "checkLoop u (xs @ ys) = checkLoop (checkLoop u xs) ys"
  by (induction xs arbitrary: u) simp_all

lemma checkOne_achievements:
  "achievements (gamification (checkOne u a)) =
     achievements (gamification u) @
       (if ach_id a \<notin> set (achievements (gamification u)) \<and> achieved u a then [ach_id a] else [])"
  by (simp add: checkOne_def)

lemma checkOne_points:
  "totalPoints (gamification (checkOne u a)) =
     totalPoints (gamification u) +
       (if ach_id a \<notin> set (achievements (gamification u)) \<and> achieved u a then ach_points a else 0)"
  by (simp add: checkOne_def)

lemma checkLoop_achievements:
  "achievements (gamification (checkLoop u as)) =
     achievements (gamification u) @ map ach_id (unlocked u as)"
  by (induction as arbitrary: u) (simp_all add: checkOne_achievements)

lemma checkLoop_points:
  "totalPoints (gamification (checkLoop u as)) =
     totalPoints (gamification u) + sum_list (map ach_points (unlocked u as))"
  by (induction as arbitrary: u) (simp_all add: checkOne_points)

lemma unlocked_fresh:
  "set (map ach_id (unlocked u as)) \<inter> set (achievements (gamification u)) = {}"
proof (induction as arbitrary: u)
  case Nil
  show ?case by simp
next
  case (Cons a rest)
  have sub: "set (achievements (gamification u)) \<subseteq> set (achievements (gamification (checkOne u a)))"
    by (simp add: checkOne_achievements)
  show ?case using Cons[of "checkOne u a"] sub by auto
qed

lemma unlocked_distinct: "distinct (map ach_id (unlocked u as))"
proof (induction as arbitrary: u)
  case Nil
  show ?case by simp
next
  case (Cons a rest)
  have "ach_id a \<notin> set (map ach_id (unlocked (checkOne u a) rest))"
    if "ach_id a \<notin> set (achievements (gamification u))" "achieved u a"
    using unlocked_fresh[of "checkOne u a" rest] that by (auto simp: checkOne_achievements)
  then show ?case using Cons[of "checkOne u a"] by auto
qed

lemma achieved_cong:
  assumes "currentStreak (gamification v) = currentStreak (gamification u)"
      and "stats v = stats u"
      and "criteria_type a \<noteq> ''total_points''"
  shows "achieved v a = achieved u a"
  using assms by (simp add: achieved_def)

lemma achieved_checkLoop:
  "criteria_type a \<noteq> ''total_points'' \<Longrightarrow> achieved (checkLoop u as) a = achieved u a"
  by (rule achieved_cong) (simp_all add: checkLoop_keeps)

lemma achieved_checkOne:
  "criteria_type a \<noteq> ''total_points'' \<Longrightarrow> achieved (checkOne u b) a = achieved u a"
  by (rule achieved_cong) (simp_all add: checkOne_keeps)

text \<open>An entry of the list that is still locked after the loop did not meet its criteria.\<close>

lemma locked_after_loop:
  assumes "a \<in> set as"
      and "ach_id a \<notin> set (achievements (gamification (checkLoop u as)))"
      and "criteria_type a \<noteq> ''total_points''"
  shows "\<not> achieved u a"
  using assms
proof (induction as arbitrary: u)
  case Nil
  then show ?case by simp
next
  case (Cons b rest)
  have grow: "set (achievements (gamification (checkOne u b)))
                \<subseteq> set (achievements (gamification (checkLoop (checkOne u b) rest)))"
    by (simp add: checkLoop_achievements)
  show ?case
  proof (cases "a = b")
    case True
    have "ach_id a \<notin> set (achievements (gamification (checkOne u a)))"
      using Cons.prems(2) grow True by auto
    then show ?thesis by (auto simp: checkOne_achievements split: if_splits)
  next
    case False
    then have "a \<in> set rest" using Cons.prems(1) by simp
    then have "\<not> achieved (checkOne u b) a"
      using Cons.IH[of "checkOne u b"] Cons.prems(2,3) by simp
    then show ?thesis using achieved_checkOne[OF Cons.prems(3)] by simp
  qed
qed

lemma checkLoop_fixed: "(\<forall>a \<in> set as. checkOne v a = v) \<Longrightarrow> checkLoop v as = v"
  by (induction as) simp_all

lemma checkOne_fixed:
  "ach_id a \<in> set (achievements (gamification v)) \<or> \<not> achieved v a \<Longrightarrow> checkOne v a = v"
  by (auto simp: checkOne_def)

lemma unlocked_sub:
  "b \<in> set (unlocked v as) \<Longrightarrow>
     b \<in> set as \<and> ach_id b \<notin> set (achievements (gamification v)) \<and>
     (criteria_type b \<noteq> ''total_points'' \<longrightarrow> achieved v b)"
proof (induction as arbitrary: v)
  case Nil
  then show ?case by simp
next
  case (Cons a rest)
  show ?case
  proof (cases "b \<in> set (unlocked (checkOne v a) rest)")
    case True
    from Cons.IH[OF True] show ?thesis
      by (auto simp: checkOne_achievements achieved_checkOne split: if_splits)
  next
    case False
    then show ?thesis using Cons.prems by (auto split: if_splits)
  qed
qed

lemma second_pass_only_points:
  assumes "b \<in> set (unlocked (checkLoop u as) as)"
  shows "criteria_type b = ''total_points''"
proof (rule ccontr)
  assume n: "criteria_type b \<noteq> ''total_points''"
  from unlocked_sub[OF assms] n
  have b: "b \<in> set as" "ach_id b \<notin> set (achievements (gamification (checkLoop u as)))"
    "achieved (checkLoop u as) b" by simp_all
  from locked_after_loop[OF b(1,2) n] b(3) achieved_checkLoop[OF n, of u as]
  show False by simp
qed

lemma second_pass_fixed:
  assumes "\<forall>a \<in> set as. criteria_type a = ''total_points'' \<and>
             ach_id a \<notin> set (achievements (gamification (checkLoop u as)))
             \<longrightarrow> totalPoints (gamification (checkLoop u as)) < criteria_target a"
  shows "checkLoop (checkLoop u as) as = checkLoop u as"
proof (rule checkLoop_fixed, rule ballI)
  fix a assume a: "a \<in> set as"
  show "checkOne (checkLoop u as) a = checkLoop u as"
  proof (cases "ach_id a \<in> set (achievements (gamification (checkLoop u as)))")
    case True
    then show ?thesis by (simp add: checkOne_fixed)
  next
    case False
    have "\<not> achieved (checkLoop u as) a"
    proof (cases "criteria_type a = ''total_points''")
      case True
      then have "totalPoints (gamification (checkLoop u as)) < criteria_target a"
        using assms a False by blast
      then show ?thesis using True by (simp add: achieved_def)
    next
      case n: False
      then show ?thesis
        using locked_after_loop[OF a False n] achieved_checkLoop[OF n, of u as] by simp
    qed
    then show ?thesis by (simp add: checkOne_fixed)
  qed
qed

text \<open>
  Claim C5, amended. A pass appends to the user's achievements exactly the ids of the entries
  it unlocks and adds exactly their bonus points: these ids are pairwise different and none
  of them was in the set before, so no id is appended twice and no bonus is counted twice,
  in a first pass as in a second. A second pass over unchanged stats can unlock only
  \<^verbatim>\<open>total_points\<close> entries; it changes nothing when every active \<^verbatim>\<open>total_points\<close> entry that
  is still locked after the first pass has a target above the points the first pass left.
\<close>

theorem C5_pass_idempotence_amended:
  "achievements (gamification (checkAchievements catalog u)) =
     achievements (gamification u) @ map ach_id (unlocked u (filter isActive catalog)) \<and>
   totalPoints (gamification (checkAchievements catalog u)) =
     totalPoints (gamification u) + sum_list (map ach_points (unlocked u (filter isActive catalog))) \<and>
   distinct (map ach_id (unlocked u (filter isActive catalog))) \<and>
   set (map ach_id (unlocked u (filter isActive catalog))) \<inter> set (achievements (gamification u)) = {} \<and>
   (\<forall>b \<in> set (unlocked (checkAchievements catalog u) (filter isActive catalog)).
      criteria_type b = ''total_points'') \<and>
   ((\<forall>a \<in> set catalog. isActive a \<and> criteria_type a = ''total_points'' \<and>
        ach_id a \<notin> set (achievements (gamification (checkAchievements catalog u)))
        \<longrightarrow> totalPoints (gamification (checkAchievements catalog u)) < criteria_target a)
    \<longrightarrow> checkAchievements catalog (checkAchievements catalog u) = checkAchievements catalog u)"
proof -
  let ?as = "filter isActive catalog"
  have idem: "checkLoop (checkLoop u ?as) ?as = checkLoop u ?as"
    if "\<forall>a \<in> set catalog. isActive a \<and> criteria_type a = ''total_points'' \<and>
        ach_id a \<notin> set (achievements (gamification (checkLoop u ?as)))
        \<longrightarrow> totalPoints (gamification (checkLoop u ?as)) < criteria_target a"
    by (rule second_pass_fixed) (use that in auto)
  show ?thesis
    unfolding checkAchievements_def
    using checkLoop_achievements[of u ?as] checkLoop_points[of u ?as] unlocked_distinct[of u ?as]
      unlocked_fresh[of u ?as] second_pass_only_points[of _ u ?as] idem
    by blast
qed

theorem C5_pass_idempotence_amended_witness:
  "checkAchievements [exFarAch, exStreakAch] (checkAchievements [exFarAch, exStreakAch] exUser)
     = checkAchievements [exFarAch, exStreakAch] exUser \<and>
   achievements (gamification (checkAchievements [exFarAch, exStreakAch] exUser)) = [''a1''] \<and>
   totalPoints (gamification (checkAchievements [exFarAch, exStreakAch] exUser)) = 145 \<and>
   criteria_target exFarAch = 1000"
proof -
  have h: "\<forall>a \<in> set [exFarAch, exStreakAch]. isActive a \<and> criteria_type a = ''total_points'' \<and>
        ach_id a \<notin> set (achievements (gamification (checkAchievements [exFarAch, exStreakAch] exUser)))
        \<longrightarrow> totalPoints (gamification (checkAchievements [exFarAch, exStreakAch] exUser)) < criteria_target a"
    by (simp add: checkAchievements_def checkOne_def achieved_def exFarAch_def exStreakAch_def ex_defs)
  have v: "achievements (gamification (checkAchievements [exFarAch, exStreakAch] exUser)) = [''a1'']"
    "totalPoints (gamification (checkAchievements [exFarAch, exStreakAch] exUser)) = 145"
    "criteria_target exFarAch = 1000"
    by (simp_all add: checkAchievements_def checkOne_def achieved_def exFarAch_def exStreakAch_def ex_defs)
  show ?thesis
    using h v C5_pass_idempotence_amended [of "[exFarAch, exStreakAch]" exUser] by blast
qed

text \<open>
  Claim C5 as stated fails: the first pass skips the locked \<^verbatim>\<open>total_points\<close> entry (95 points,
  target 100) and then unlocks the streak entry, whose bonus brings the points to 145; the
  second pass, with nothing else changed, unlocks the \<^verbatim>\<open>total_points\<close> entry.
\<close>

theorem C5_pass_idempotence_counterexample:
  "achievements (gamification (checkAchievements [exPointsAch, exStreakAch] exUser)) = [''a1''] \<and>
   totalPoints (gamification (checkAchievements [exPointsAch, exStreakAch] exUser)) = 145 \<and>
   achievements (gamification (checkAchievements [exPointsAch, exStreakAch]
       (checkAchievements [exPointsAch, exStreakAch] exUser))) = [''a1'', ''b1''] \<and>
   totalPoints (gamification (checkAchievements [exPointsAch, exStreakAch]
       (checkAchievements [exPointsAch, exStreakAch] exUser))) = 155"
  by (simp add: checkAchievements_def checkOne_def achieved_def exPointsAch_def exStreakAch_def ex_defs)

lemma unlocked_points_nonneg:
  "\<forall>a \<in> set as. ach_points a \<ge> 0 \<Longrightarrow> 0 \<le> sum_list (map ach_points (unlocked u as))"
proof (rule sum_list_nonneg)
  fix x assume a: "\<forall>a \<in> set as. ach_points a \<ge> 0" "x \<in> set (map ach_points (unlocked u as))"
  then obtain b where "b \<in> set (unlocked u as)" "x = ach_points b" by auto
  then show "0 \<le> x" using unlocked_sub[of b u as] a(1) by auto
qed

lemma checkLoop_points_mono:
  "\<forall>a \<in> set as. ach_points a \<ge> 0 \<Longrightarrow>
     totalPoints (gamification u) \<le> totalPoints (gamification (checkLoop u as))"
  using unlocked_points_nonneg[of as u] by (simp add: checkLoop_points)

lemma checkLoop_keeps_ids:
  "i \<in> set (achievements (gamification u)) \<Longrightarrow> i \<in> set (achievements (gamification (checkLoop u as)))"
  by (simp add: checkLoop_achievements)

text \<open>
  Claim C6. Let the active entries be iterated in the order \<open>pre\<close>, \<open>A\<close>, \<open>mid\<close>, \<open>B\<close>, \<open>post\<close>.
  If \<open>A\<close> is unlocked when its turn comes and its bonus brings the points to at least the
  target of the \<^verbatim>\<open>total_points\<close> entry \<open>B\<close>, then after the call the user holds \<open>B\<close>, and \<open>B\<close>
  is among the ids this call unlocked unless the user held it before. Bonus points are never
  negative (the schema's minimum for \<^verbatim>\<open>points\<close> is 0), which is asked of the entries between
  \<open>A\<close> and \<open>B\<close>.
\<close>

theorem C6_live_points:
  assumes order: "filter isActive catalog = pre @ A # mid @ B # post"
      and locked: "ach_id A \<notin> set (achievements (gamification (checkLoop u pre)))"
      and met: "achieved (checkLoop u pre) A"
      and kind: "criteria_type B = ''total_points''"
      and reach: "criteria_target B \<le> totalPoints (gamification (checkLoop u pre)) + ach_points A"
      and bonus: "\<forall>a \<in> set mid. ach_points a \<ge> 0"
  shows "ach_id B \<in> set (achievements (gamification (checkAchievements catalog u))) \<and>
         (ach_id B \<notin> set (achievements (gamification u)) \<longrightarrow>
            ach_id B \<in> set (map ach_id (unlocked u (filter isActive catalog))))"
proof -
  let ?uA = "checkOne (checkLoop u pre) A"
  let ?uB = "checkLoop ?uA mid"
  have split: "checkAchievements catalog u = checkLoop (checkOne ?uB B) post"
    by (simp add: checkAchievements_def order checkLoop_append)
  have "totalPoints (gamification ?uA) = totalPoints (gamification (checkLoop u pre)) + ach_points A"
    using locked met by (simp add: checkOne_points)
  then have "criteria_target B \<le> totalPoints (gamification ?uB)"
    using reach checkLoop_points_mono[OF bonus, of ?uA] by simp
  then have "achieved ?uB B"
    using kind by (simp add: achieved_def)
  then have "ach_id B \<in> set (achievements (gamification (checkOne ?uB B)))"
    by (simp add: checkOne_achievements)
  then have held: "ach_id B \<in> set (achievements (gamification (checkAchievements catalog u)))"
    unfolding split by (rule checkLoop_keeps_ids)
  moreover have "achievements (gamification (checkAchievements catalog u)) =
      achievements (gamification u) @ map ach_id (unlocked u (filter isActive catalog))"
    by (simp add: checkAchievements_def checkLoop_achievements)
  ultimately show ?thesis by auto
qed

theorem C6_live_points_witness:
  "filter isActive [exStreakAch, exPointsAch] = [] @ exStreakAch # [] @ exPointsAch # [] \<and>
   ach_id exStreakAch \<notin> set (achievements (gamification (checkLoop exUser []))) \<and>
   achieved (checkLoop exUser []) exStreakAch \<and>
   criteria_type exPointsAch = ''total_points'' \<and>
   criteria_target exPointsAch \<le> totalPoints (gamification (checkLoop exUser [])) + ach_points exStreakAch \<and>
   \<not> achieved exUser exPointsAch \<and>
   ach_id exPointsAch \<in> set (achievements (gamification (checkAchievements [exStreakAch, exPointsAch] exUser)))"
proof -
  have h1: "filter isActive [exStreakAch, exPointsAch] = [] @ exStreakAch # [] @ exPointsAch # []"
    by (simp add: exStreakAch_def exPointsAch_def)
  have h2: "ach_id exStreakAch \<notin> set (achievements (gamification (checkLoop exUser [])))"
    by (simp add: ex_defs)
  have h3: "achieved (checkLoop exUser []) exStreakAch"
    by (simp add: achieved_def exStreakAch_def ex_defs)
  have h4: "criteria_type exPointsAch = ''total_points''"
    by (simp add: exPointsAch_def)
  have h5: "criteria_target exPointsAch \<le> totalPoints (gamification (checkLoop exUser [])) + ach_points exStreakAch"
    by (simp add: exStreakAch_def exPointsAch_def ex_defs)
  have h6: "\<forall>a \<in> set ([] :: achievement list). ach_points a \<ge> 0"
    by simp
  have h7: "\<not> achieved exUser exPointsAch"
    by (simp add: achieved_def exPointsAch_def ex_defs)
  show ?thesis
    using h1 h2 h3 h4 h5 h7 C6_live_points [OF h1 h2 h3 h4 h5 h6] by simp
qed







text \<open>
  A stored user that the schema refuses (level 0): the event is stored, the save throws and
  the user stays as it was.
\<close>

lemma refused_user_save_example:
  "recordActivity ''u1'' ''login'' None 5 5
     (exDb\<lparr>users := [exUser\<lparr>gamification := exGamification\<lparr>level := 0\<rparr>\<rparr>]\<rparr>)
   = (Inl MongooseValidationError,
      exDb\<lparr>users := [exUser\<lparr>gamification := exGamification\<lparr>level := 0\<rparr>\<rparr>],
           activityEvents := [\<lparr>ev_userId = ''u1'', ev_type = ''login'', ev_points = 5,
                                ev_metadata = None, ev_date = 5\<rparr>]\<rparr>)"
  by (simp add: run_defs ex_defs)







lemmas app_defs = exJob_def exJobBusy_def exApp1_def exApp2_def exApp3_def exApp4_def exDbApps_def
  exTokens_def exLetter_def exAppShort_def exDbShort_def


lemma findById_delete: "findById ident i (findByIdAndDelete ident i docs) = None"
  unfolding findById_def findByIdAndDelete_def by (simp add: find_None_iff)

lemma validateApplication_status:
  "validateApplication (a\<lparr>app_status := s, respondedAt := r\<rparr>) = validateApplication a"
  "validateApplication (a\<lparr>app_status := s\<rparr>) = validateApplication a"
  by (simp_all add: validateApplication_def)

text \<open>A stored application that the schema refuses cannot be accepted: nothing is written.\<close>

lemma acceptApplication_refused:
  assumes "findById app_id applicationId (applications d) = Some A"
      and "findById job_id (jobId A) (jobs d) = Some j"
      and "clientId j = userId" "job_status j = Open" "app_status A = Pending"
      and "\<not> validateApplication A"
  shows "acceptApplication applicationId userId t1 t2 d = (Inl MongooseValidationError, d)"
  using assms by (simp add: acceptApplication_def Let_def validateApplication_status)

text \<open>
  Claim C3. When the caller is the client of the application's job, the job is open, the
  application \<open>A\<close> is pending and, as every document the service stores, meets the
  application schema, \<open>acceptApplication\<close> succeeds and returns \<open>A\<close> as accepted with
  \<open>respondedAt\<close> set; the jobs are untouched (the job stays open); and in the stored
  applications, position by position: the application with the accepted identifier is the
  accepted \<open>A\<close>, every other pending application of the same job is rejected with
  \<open>respondedAt\<close> set, and every other application (of another job, or accepted, rejected or
  withdrawn) is unchanged.
\<close>

theorem C3_accept_rejects_competitors:
  assumes found: "findById app_id applicationId (applications d) = Some A"
      and job: "findById job_id (jobId A) (jobs d) = Some j"
      and owner: "clientId j = userId"
      and opn: "job_status j = Open"
      and pending: "app_status A = Pending"
      and valid: "validateApplication A"
  shows "fst (acceptApplication applicationId userId t1 t2 d)
           = Inr (A\<lparr>app_status := Accepted, respondedAt := Some t1\<rparr>) \<and>
         jobs (snd (acceptApplication applicationId userId t1 t2 d)) = jobs d \<and>
         length (applications (snd (acceptApplication applicationId userId t1 t2 d)))
           = length (applications d) \<and>
         (\<forall>i < length (applications d).
            (app_id (applications d ! i) = applicationId \<longrightarrow>
               applications (snd (acceptApplication applicationId userId t1 t2 d)) ! i
                 = A\<lparr>app_status := Accepted, respondedAt := Some t1\<rparr>) \<and>
            (app_id (applications d ! i) \<noteq> applicationId \<and> jobId (applications d ! i) = jobId A \<and>
             app_status (applications d ! i) = Pending \<longrightarrow>
               applications (snd (acceptApplication applicationId userId t1 t2 d)) ! i
                 = (applications d ! i)\<lparr>app_status := Rejected, respondedAt := Some t2\<rparr>) \<and>
            (app_id (applications d ! i) \<noteq> applicationId \<and>
             (jobId (applications d ! i) \<noteq> jobId A \<or> app_status (applications d ! i) \<noteq> Pending) \<longrightarrow>
               applications (snd (acceptApplication applicationId userId t1 t2 d)) ! i
                 = applications d ! i))"
proof -
  let ?A' = "A\<lparr>app_status := Accepted, respondedAt := Some t1\<rparr>"
  let ?apps = "updateMany (\<lambda>a. jobId a = job_id j \<and> app_id a \<noteq> applicationId \<and> app_status a = Pending)
                 (\<lambda>a. a\<lparr>app_status := Rejected, respondedAt := Some t2\<rparr>)
                 (save app_id ?A' (applications d))"
  have aid: "app_id A = applicationId" using found by (rule findById_ident)
  have jid: "job_id j = jobId A" using job by (rule findById_ident)
  have run: "acceptApplication applicationId userId t1 t2 d = (Inr ?A', d\<lparr>applications := ?apps\<rparr>)"
    using assms by (simp add: acceptApplication_def Let_def validateApplication_status)
  have len: "length ?apps = length (applications d)"
    by (simp add: updateMany_def save_def)
  have nth: "?apps ! i =
      (if app_id (applications d ! i) = applicationId then ?A'
       else if jobId (applications d ! i) = jobId A \<and> app_status (applications d ! i) = Pending
         then (applications d ! i)\<lparr>app_status := Rejected, respondedAt := Some t2\<rparr>
       else applications d ! i)" if "i < length (applications d)" for i
    using that by (simp add: updateMany_def save_def aid jid)
  show ?thesis
    unfolding run using len nth by auto
qed

theorem C3_accept_rejects_competitors_witness:
  "findById app_id ''a1'' (applications exDbApps) = Some exApp1 \<and>
   findById job_id (jobId exApp1) (jobs exDbApps) = Some exJob \<and>
   clientId exJob = ''c1'' \<and> job_status exJob = Open \<and> app_status exApp1 = Pending \<and>
   validateApplication exApp1 \<and>
   fst (acceptApplication ''a1'' ''c1'' 10 11 exDbApps)
     = Inr (exApp1\<lparr>app_status := Accepted, respondedAt := Some 10\<rparr>) \<and>
   applications (snd (acceptApplication ''a1'' ''c1'' 10 11 exDbApps)) =
     [exApp1\<lparr>app_status := Accepted, respondedAt := Some 10\<rparr>,
      exApp2\<lparr>app_status := Rejected, respondedAt := Some 11\<rparr>, exApp3, exApp4]"
proof -
  have h1: "findById app_id ''a1'' (applications exDbApps) = Some exApp1"
    by (simp add: findById_def app_defs ex_defs)
  have h2: "findById job_id (jobId exApp1) (jobs exDbApps) = Some exJob"
    by (simp add: findById_def app_defs ex_defs)
  have h3: "clientId exJob = ''c1''" and h4: "job_status exJob = Open"
    and h5: "app_status exApp1 = Pending"
    by (simp_all add: app_defs)
  have h6: "validateApplication exApp1"
    by (simp add: validateApplication_def app_defs)
  have apps: "applications exDbApps = [exApp1, exApp2, exApp3, exApp4]"
    by (simp add: app_defs ex_defs)
  have ids: "app_id exApp1 = ''a1''" "app_id exApp2 = ''a2''" "app_id exApp3 = ''a3''"
    "app_id exApp4 = ''a4''" "jobId exApp1 = ''j1''" "jobId exApp2 = ''j1''" "jobId exApp3 = ''j1''"
    "jobId exApp4 = ''j2''" "app_status exApp2 = Pending" "app_status exApp3 = Withdrawn"
    by (simp_all add: app_defs)
  let ?r = "applications (snd (acceptApplication ''a1'' ''c1'' 10 11 exDbApps))"
  from C3_accept_rejects_competitors [OF h1 h2 h3 h4 h5 h6, of 10 11]
  have res: "fst (acceptApplication ''a1'' ''c1'' 10 11 exDbApps)
       = Inr (exApp1\<lparr>app_status := Accepted, respondedAt := Some 10\<rparr>)"
    and len: "length ?r = 4"
    and nth: "\<forall>i < 4.
            (app_id ([exApp1, exApp2, exApp3, exApp4] ! i) = ''a1'' \<longrightarrow>
               ?r ! i = exApp1\<lparr>app_status := Accepted, respondedAt := Some 10\<rparr>) \<and>
            (app_id ([exApp1, exApp2, exApp3, exApp4] ! i) \<noteq> ''a1'' \<and>
             jobId ([exApp1, exApp2, exApp3, exApp4] ! i) = jobId exApp1 \<and>
             app_status ([exApp1, exApp2, exApp3, exApp4] ! i) = Pending \<longrightarrow>
               ?r ! i = ([exApp1, exApp2, exApp3, exApp4] ! i)\<lparr>app_status := Rejected, respondedAt := Some 11\<rparr>) \<and>
            (app_id ([exApp1, exApp2, exApp3, exApp4] ! i) \<noteq> ''a1'' \<and>
             (jobId ([exApp1, exApp2, exApp3, exApp4] ! i) \<noteq> jobId exApp1 \<or>
              app_status ([exApp1, exApp2, exApp3, exApp4] ! i) \<noteq> Pending) \<longrightarrow>
               ?r ! i = [exApp1, exApp2, exApp3, exApp4] ! i)"
    by (simp_all add: apps)
  have n0: "?r ! 0 = exApp1\<lparr>app_status := Accepted, respondedAt := Some 10\<rparr>"
    using nth[rule_format, of 0] by (simp add: ids)
  have n1: "?r ! 1 = exApp2\<lparr>app_status := Rejected, respondedAt := Some 11\<rparr>"
    using nth[rule_format, of 1] by (simp add: ids)
  have n2: "?r ! 2 = exApp3"
    using nth[rule_format, of 2] by (simp add: ids)
  have n3: "?r ! 3 = exApp4"
    using nth[rule_format, of 3] by (simp add: ids)
  have "?r = [?r ! 0, ?r ! 1, ?r ! 2, ?r ! 3]"
    using len by (auto simp: list_eq_iff_nth_eq less_Suc_eq numeral_eq_Suc)
  then have "?r = [exApp1\<lparr>app_status := Accepted, respondedAt := Some 10\<rparr>,
      exApp2\<lparr>app_status := Rejected, respondedAt := Some 11\<rparr>, exApp3, exApp4]"
    using n0 n1 n2 n3 by simp
  then show ?thesis using h1 h2 h3 h4 h5 h6 res by simp
qed

lemma incApplicationsCount_id: "job_id (incApplicationsCount k x) = job_id x"
  by (simp add: incApplicationsCount_def)

lemma count_after_update:
  assumes "findById job_id i js = Some j"
  shows "map_option (applicationsCount \<circ> job_stats)
           (findById job_id i (findByIdAndUpdate job_id i (incApplicationsCount k) js))
         = Some (applicationsCount (job_stats j) + k)"
  using assms findById_ident[OF assms]
  by (simp add: findById_findByIdAndUpdate incApplicationsCount_id)
     (simp add: incApplicationsCount_def)

text \<open>
  Claim C4, amended. When an application of the pair (job, freelancer) is stored, in any
  status, \<open>createApplication\<close> for that pair fails and leaves the database as it was: no
  second application is stored and no counter is incremented. The error is not-found when
  the job is gone, \<^verbatim>\<open>400 JOB_NOT_OPEN\<close> when the job is not open, \<^verbatim>\<open>400 CANNOT_APPLY_OWN_JOB\<close>
  when the job is open and the freelancer is its client, and the conflict
  \<^verbatim>\<open>409 ALREADY_APPLIED\<close> in the remaining case: the job is open and not the freelancer's own.
\<close>

theorem C4_duplicate_application_amended:
  assumes "a \<in> set (applications d)"
      and "jobId a = ca_jobId data"
      and "freelancerId a = fId"
  shows "snd (createApplication fId data newId now d) = d \<and>
         (findById job_id (ca_jobId data) (jobs d) = None \<longrightarrow>
            fst (createApplication fId data newId now d) = Inl NotFoundError) \<and>
         (\<forall>j. findById job_id (ca_jobId data) (jobs d) = Some j \<and> job_status j \<noteq> Open
            \<longrightarrow> fst (createApplication fId data newId now d) = Inl (AppError 400 ''JOB_NOT_OPEN'')) \<and>
         (\<forall>j. findById job_id (ca_jobId data) (jobs d) = Some j \<and> job_status j = Open \<and> clientId j = fId
            \<longrightarrow> fst (createApplication fId data newId now d)
                  = Inl (AppError 400 ''CANNOT_APPLY_OWN_JOB'')) \<and>
         (\<forall>j. findById job_id (ca_jobId data) (jobs d) = Some j \<and> job_status j = Open \<and> clientId j \<noteq> fId
            \<longrightarrow> fst (createApplication fId data newId now d) = Inl (AppError 409 ''ALREADY_APPLIED''))"
proof -
  have "find (\<lambda>a. jobId a = ca_jobId data \<and> freelancerId a = fId) (applications d) \<noteq> None"
    using assms by (auto simp: find_None_iff)
  then obtain x where x: "find (\<lambda>a. jobId a = ca_jobId data \<and> freelancerId a = fId) (applications d) = Some x"
    by blast
  show ?thesis
    by (cases "findById job_id (ca_jobId data) (jobs d)")
       (simp_all add: createApplication_def x)
qed

theorem C4_duplicate_application_amended_witness:
  "exApp2 \<in> set (applications exDbApps) \<and> jobId exApp2 = ''j1'' \<and> freelancerId exApp2 = ''f2'' \<and>
   findById job_id ''j1'' (jobs exDbApps) = Some exJob \<and> job_status exJob = Open \<and>
   clientId exJob \<noteq> ''f2'' \<and>
   snd (createApplication ''f2''
          \<lparr>ca_jobId = ''j1'', ca_coverLetter = exLetter, ca_proposedRate = None\<rparr> ''a9'' 20 exDbApps)
     = exDbApps \<and>
   fst (createApplication ''f2''
          \<lparr>ca_jobId = ''j1'', ca_coverLetter = exLetter, ca_proposedRate = None\<rparr> ''a9'' 20 exDbApps)
     = Inl (AppError 409 ''ALREADY_APPLIED'')"
proof -
  have h1: "exApp2 \<in> set (applications exDbApps)"
    by (simp add: app_defs ex_defs)
  have h2: "jobId exApp2 = ca_jobId \<lparr>ca_jobId = ''j1'', ca_coverLetter = exLetter, ca_proposedRate = None\<rparr>"
    by (simp add: app_defs)
  have h3: "freelancerId exApp2 = ''f2''"
    by (simp add: app_defs)
  have h4: "findById job_id ''j1'' (jobs exDbApps) = Some exJob" "job_status exJob = Open"
    "clientId exJob \<noteq> ''f2''"
    by (simp_all add: findById_def app_defs ex_defs)
  show ?thesis
    using h1 h2 h3 h4 C4_duplicate_application_amended [OF h1 h2 h3, of "''a9''" 20]
    by simp
qed

text \<open>
  Claim C4 as stated fails on the error kind: once the job has left the open state, a second
  application of a pair that has applied is refused with \<^verbatim>\<open>400 JOB_NOT_OPEN\<close>, not with a
  conflict.
\<close>

theorem C4_duplicate_application_counterexample:
  "exApp4 \<in> set (applications exDbApps) \<and> jobId exApp4 = ''j2'' \<and> freelancerId exApp4 = ''f1'' \<and>
   createApplication ''f1''
       \<lparr>ca_jobId = ''j2'', ca_coverLetter = exLetter, ca_proposedRate = None\<rparr> ''a9'' 20 exDbApps
     = (Inl (AppError 400 ''JOB_NOT_OPEN''), exDbApps)"
  by (simp add: createApplication_def findById_def app_defs ex_defs)

text \<open>A stored application that the schema refuses cannot be withdrawn: nothing is written.\<close>

lemma withdrawApplication_refused:
  assumes "findById app_id applicationId (applications d) = Some A"
      and "freelancerId A = userId" "app_status A = Pending" "\<not> validateApplication A"
  shows "withdrawApplication applicationId userId d = (Inl MongooseValidationError, d)"
  using assms by (simp add: withdrawApplication_def Let_def validateApplication_status)

lemma refused_save_examples:
  "acceptApplication ''a1'' ''c1'' 10 11 exDbShort = (Inl MongooseValidationError, exDbShort)"
  "withdrawApplication ''a1'' ''f1'' exDbShort = (Inl MongooseValidationError, exDbShort)"
  "fst (deleteApplication ''a1'' ''f1'' exDbShort) = Inr ()"
  by (simp_all add: acceptApplication_def withdrawApplication_def deleteApplication_def findById_def
        validateApplication_def Let_def app_defs ex_defs)

text \<open>
  Claim C10. \<open>deleteApplication\<close> by the applying freelancer succeeds whatever the status of
  the application, removes it and takes 1 from the \<open>applicationsCount\<close> of its job; for a
  pending application that, as every document the service stores, meets the application
  schema, withdrawing and then deleting both succeed and take 2 in total.
\<close>

theorem C10_delete_decrements:
  assumes found: "findById app_id applicationId (applications d) = Some A"
      and owner: "freelancerId A = userId"
  shows "fst (deleteApplication applicationId userId d) = Inr () \<and>
         findById app_id applicationId (applications (snd (deleteApplication applicationId userId d))) = None \<and>
         (\<forall>j. findById job_id (jobId A) (jobs d) = Some j \<longrightarrow>
            map_option (applicationsCount \<circ> job_stats)
              (findById job_id (jobId A) (jobs (snd (deleteApplication applicationId userId d))))
            = Some (applicationsCount (job_stats j) - 1)) \<and>
         (app_status A = Pending \<and> validateApplication A \<longrightarrow>
            fst (withdrawApplication applicationId userId d) = Inr (A\<lparr>app_status := Withdrawn\<rparr>) \<and>
            fst (deleteApplication applicationId userId (snd (withdrawApplication applicationId userId d)))
              = Inr () \<and>
            (\<forall>j. findById job_id (jobId A) (jobs d) = Some j \<longrightarrow>
               map_option (applicationsCount \<circ> job_stats)
                 (findById job_id (jobId A)
                    (jobs (snd (deleteApplication applicationId userId
                       (snd (withdrawApplication applicationId userId d))))))
               = Some (applicationsCount (job_stats j) - 2)))"
proof -
  let ?W = "A\<lparr>app_status := Withdrawn\<rparr>"
  have aid: "app_id A = applicationId" using found by (rule findById_ident)
  have del: "deleteApplication applicationId userId d =
      (Inr (), d\<lparr>applications := findByIdAndDelete app_id applicationId (applications d),
                 jobs := findByIdAndUpdate job_id (jobId A) (incApplicationsCount (- 1)) (jobs d)\<rparr>)"
    using assms by (simp add: deleteApplication_def)
  have one: "map_option (applicationsCount \<circ> job_stats)
              (findById job_id (jobId A) (jobs (snd (deleteApplication applicationId userId d))))
            = Some (applicationsCount (job_stats j) - 1)"
    if "findById job_id (jobId A) (jobs d) = Some j" for j
    unfolding del using count_after_update[OF that, of "- 1"] by simp
  have wd: "withdrawApplication applicationId userId d =
      (Inr ?W, d\<lparr>applications := save app_id ?W (applications d),
                 jobs := findByIdAndUpdate job_id (jobId A) (incApplicationsCount (- 1)) (jobs d)\<rparr>)"
    if "app_status A = Pending" "validateApplication A"
    using assms that by (simp add: withdrawApplication_def Let_def validateApplication_status)
  have found': "findById app_id applicationId (save app_id ?W (applications d)) = Some ?W"
    using findById_save_same[OF found, of ?W] aid by simp
  have del2: "deleteApplication applicationId userId (snd (withdrawApplication applicationId userId d)) =
      (Inr (), (snd (withdrawApplication applicationId userId d))
         \<lparr>applications := findByIdAndDelete app_id applicationId (save app_id ?W (applications d)),
          jobs := findByIdAndUpdate job_id (jobId A) (incApplicationsCount (- 1))
                    (findByIdAndUpdate job_id (jobId A) (incApplicationsCount (- 1)) (jobs d))\<rparr>)"
    if "app_status A = Pending" "validateApplication A"
    using owner found' by (simp add: wd[OF that] deleteApplication_def)
  have two: "map_option (applicationsCount \<circ> job_stats)
                 (findById job_id (jobId A)
                    (jobs (snd (deleteApplication applicationId userId
                       (snd (withdrawApplication applicationId userId d))))))
               = Some (applicationsCount (job_stats j) - 2)"
    if p: "app_status A = Pending" "validateApplication A"
      and j: "findById job_id (jobId A) (jobs d) = Some j" for j
  proof -
    have jid: "job_id j = jobId A" using j by (rule findById_ident)
    let ?j1 = "incApplicationsCount (- 1) j"
    have s1: "findById job_id (jobId A)
            (findByIdAndUpdate job_id (jobId A) (incApplicationsCount (- 1)) (jobs d)) = Some ?j1"
      using j jid by (simp add: findById_findByIdAndUpdate incApplicationsCount_id)
    show ?thesis
      unfolding del2[OF p] using count_after_update[OF s1, of "- 1"]
      by (simp add: incApplicationsCount_def)
  qed
  show ?thesis
    using del one wd del2 two by (simp add: findById_delete)
qed

theorem C10_delete_decrements_witness:
  "findById app_id ''a1'' (applications exDbApps) = Some exApp1 \<and> freelancerId exApp1 = ''f1'' \<and>
   app_status exApp1 = Pending \<and> validateApplication exApp1 \<and>
   findById job_id (jobId exApp1) (jobs exDbApps) = Some exJob \<and>
   applicationsCount (job_stats exJob) = 2 \<and>
   fst (deleteApplication ''a1'' ''f1'' exDbApps) = Inr () \<and>
   map_option (applicationsCount \<circ> job_stats)
     (findById job_id (jobId exApp1) (jobs (snd (deleteApplication ''a1'' ''f1'' exDbApps)))) = Some 1 \<and>
   map_option (applicationsCount \<circ> job_stats)
     (findById job_id (jobId exApp1)
        (jobs (snd (deleteApplication ''a1'' ''f1'' (snd (withdrawApplication ''a1'' ''f1'' exDbApps))))))
     = Some 0"
proof -
  have h1: "findById app_id ''a1'' (applications exDbApps) = Some exApp1"
    by (simp add: findById_def app_defs ex_defs)
  have h2: "freelancerId exApp1 = ''f1''" and h3: "app_status exApp1 = Pending"
    by (simp_all add: app_defs)
  have h4: "findById job_id (jobId exApp1) (jobs exDbApps) = Some exJob"
    by (simp add: findById_def app_defs ex_defs)
  have h5: "applicationsCount (job_stats exJob) = 2"
    by (simp add: app_defs)
  have h6: "validateApplication exApp1"
    by (simp add: validateApplication_def app_defs)
  show ?thesis
    using h1 h2 h3 h4 h5 h6 C10_delete_decrements [OF h1 h2] by simp
qed













end
